theory Spec2Isabelle
  imports Main "HOL-Library.AList"
begin

section \<open>Values, exceptions and the environment\<close>

text \<open>
  The worker exchanges JSON with the dispatcher and keeps JSON on disk. A Python value that
  came out of \<^verbatim>\<open>json.loads\<close> or goes into \<^verbatim>\<open>json.dumps\<close> is a \<open>json\<close>; a
  \<^verbatim>\<open>dict\<close> is an association list, which keeps Python's insertion order. JSON numbers
  with a fraction are left out.
\<close>

datatype json =
    JNull
  | JBool bool
  | JInt int
  | JStr string
  | JList "json list"
  | JObj "(string \<times> json) list"

text \<open>
  Exceptions are values. Each constructor carries what \<^verbatim>\<open>str(e)\<close> needs:
  \<open>KeyError\<close> the missing key, the others their message. \<open>ClientError\<close> stands for
  what aiohttp raises (connection failures, timeouts, a body that is not JSON),
  \<open>OtherError\<close> for any other exception class a handler may raise.
\<close>

datatype error =
    KeyError string
  | TypeError string
  | AttributeError string
  | RuntimeError string
  | JSONDecodeError string
  | ClientError string
  | OSError string
  | OtherError string

definition quoted :: "string \<Rightarrow> string" where
  "quoted s = [CHR 0x27] @ s @ [CHR 0x27]"


text \<open>The name of the Python type a JSON value is loaded as.\<close>

fun type_name :: "json \<Rightarrow> string" where
  "type_name JNull = ''NoneType''"
| "type_name (JBool b) = ''bool''"
| "type_name (JInt i) = ''int''"
| "type_name (JStr s) = ''str''"
| "type_name (JList xs) = ''list''"
| "type_name (JObj kvs) = ''dict''"

text \<open>
  \<^verbatim>\<open>d[k]\<close> and \<^verbatim>\<open>d.get(k, default)\<close> with a string \<open>k\<close>, on a value that came
  from JSON. Only a \<^verbatim>\<open>dict\<close> has string keys and a \<^verbatim>\<open>get\<close>. (The message
  texts are those of Python 3.11; nothing below depends on them.)
\<close>

fun subscript :: "json \<Rightarrow> string \<Rightarrow> error + json" where
  "subscript (JObj kvs) k = (case map_of kvs k of None \<Rightarrow> Inl (KeyError k) | Some v \<Rightarrow> Inr v)"
| "subscript (JList xs) k = Inl (TypeError ''list indices must be integers or slices, not str'')"
| "subscript (JStr s) k = Inl (TypeError (''string indices must be integers, not '' @ quoted ''str''))"
| "subscript v k = Inl (TypeError (quoted (type_name v) @ '' object is not subscriptable''))"


text \<open>
  \<^verbatim>\<open>d[k] = v\<close>: a key that is there keeps its place, a new key goes to the end.
\<close>

fun setitem :: "json \<Rightarrow> string \<Rightarrow> json \<Rightarrow> error + json" where
  "setitem (JObj kvs) k v = Inr (JObj (AList.update k v kvs))"
| "setitem (JList xs) k v = Inl (TypeError ''list indices must be integers or slices, not str'')"
| "setitem d k v =
     Inl (TypeError (quoted (type_name d) @ '' object does not support item assignment''))"

text \<open>
  The library functions the code calls but does not define are parameters of the model:
  \<^verbatim>\<open>json.dumps(x)\<close>, \<^verbatim>\<open>json.dumps(x, indent=2)\<close>, \<^verbatim>\<open>json.loads\<close> (\<open>None\<close> when it
  raises), the successive results of \<^verbatim>\<open>str(uuid.uuid4())\<close>,
  \<^verbatim>\<open>socket.gethostname()\<close>, \<^verbatim>\<open>platform.platform()\<close> and
  \<^verbatim>\<open>hashlib.sha256(s.encode()).hexdigest()\<close>.
\<close>

record env =
  dumps :: "json \<Rightarrow> string"
  dumps_indent :: "json \<Rightarrow> string"
  loads :: "string \<Rightarrow> json option"
  uuid4 :: "nat \<Rightarrow> string"
  gethostname :: string
  platform :: string
  sha256_hex :: "string \<Rightarrow> string"

text \<open>
  \<^verbatim>\<open>str.splitlines()\<close>: a line ends at LF, CR, CR LF, VT, FF, FS, GS, RS or NEL; the
  terminators are dropped and a terminator at the very end opens no further line.
\<close>

definition line_boundary :: "char \<Rightarrow> bool" where
  "line_boundary c \<longleftrightarrow>
     c \<in> {CHR 0x0A, CHR 0x0D, CHR 0x0B, CHR 0x0C, CHR 0x1C, CHR 0x1D, CHR 0x1E, CHR 0x85}"

fun splitlines_from :: "string \<Rightarrow> string \<Rightarrow> string list" where
  "splitlines_from cur [] = (if cur = [] then [] else [rev cur])"
| "splitlines_from cur [c] =
     (if line_boundary c then [rev cur] else [rev (c # cur)])"
| "splitlines_from cur (c # d # cs) =
     (if c = CHR 0x0D \<and> d = CHR 0x0A then rev cur # splitlines_from [] cs
      else if line_boundary c then rev cur # splitlines_from [] (d # cs)
      else splitlines_from (c # cur) (d # cs))"

definition splitlines :: "string \<Rightarrow> string list" where
  "splitlines text = splitlines_from [] text"

section \<open>The world the worker acts on\<close>

text \<open>
  A request goes to one of the dispatcher's endpoints; the URL
  \<^verbatim>\<open>f"{settings.server_base}/jobs/{job_id}/{action}"\<close> is kept as its parts. What
  comes back is either no response at all (the transport failed) or a response with its
  HTTP status and with what \<^verbatim>\<open>await r.json()\<close> gives on it: the decoded body, or the
  exception raised when the body is not JSON.
\<close>

datatype endpoint = JobsClaim | JobsReport json json

datatype http_result =
    ConnectionFailed string
  | Response nat "error + json"

datatype event =
    HttpPost endpoint json http_result
  | OutboxAppend json bool

text \<open>
  \<open>net\<close> is what the network will answer to the next requests, in order (nothing left:
  the connection fails). \<open>outbox_file\<close> is the text of \<^verbatim>\<open>.state/outbox.jsonl\<close>,
  \<open>None\<close> when the file does not exist; \<open>outbox_writable\<close> says whether creating the
  directory, opening and writing the file succeed. \<open>sem_value\<close> is the number of free
  permits of the scheduler's semaphore. \<open>trace\<close> records, in order, every request with
  its outcome and every call of \<^verbatim>\<open>outbox.append\<close> with whether it wrote.
\<close>

record world =
  net :: "http_result list"
  outbox_file :: "string option"
  outbox_writable :: bool
  sem_value :: nat
  trace :: "event list"

section \<open>Dispatcher client (api.py)\<close>

text \<open>
  \<^verbatim>\<open>self._session.post(url, json=body, headers=...)\<close>. The headers carry the token
  and play no part in what follows.
\<close>

definition session_post :: "endpoint \<Rightarrow> json \<Rightarrow> world \<Rightarrow> http_result \<times> world" where
  "session_post url body w =
     (case net w of
        [] \<Rightarrow> (let r = ConnectionFailed ''cannot connect'' in
               (r, w\<lparr>trace := trace w @ [HttpPost url body r]\<rparr>))
      | r # rs \<Rightarrow> (r, w\<lparr>net := rs, trace := trace w @ [HttpPost url body r]\<rparr>))"

text \<open>
  \<^verbatim>\<open>
  async def report(self, job_id, action, payload):
      url = f"{settings.server_base}/jobs/{job_id}/{action}"
      async with self._session.post(url, json=payload, headers=self._headers()) as r:
          return await r.json()
  \<close>
\<close>

definition report :: "json \<Rightarrow> json \<Rightarrow> json \<Rightarrow> world \<Rightarrow> (error + json) \<times> world" where
  "report job_id action payload w =
     (case session_post (JobsReport job_id action) payload w of
        (ConnectionFailed m, w') \<Rightarrow> (Inl (ClientError m), w')
      | (Response status body, w') \<Rightarrow> (body, w'))"


section \<open>Outbox (outbox.py)\<close>

text \<open>
  \<^verbatim>\<open>
  def append(item):
      OBX.parent.mkdir(parents=True, exist_ok=True)
      with OBX.open("a", encoding="utf-8") as f:
          f.write(json.dumps(item) + "\n")
  \<close>
  (\<open>outbox_append\<close> here, since \<open>append\<close> is the list operation of HOL.) When the
  file cannot be written the call raises and the file is as it was.
\<close>

definition outbox_append :: "env \<Rightarrow> json \<Rightarrow> world \<Rightarrow> (error + unit) \<times> world" where
  "outbox_append E item w =
     (if outbox_writable w
      then (Inr (),
            w\<lparr>outbox_file :=
                 Some ((case outbox_file w of None \<Rightarrow> [] | Some text \<Rightarrow> text)
                       @ dumps E item @ [CHR 0x0A]),
              trace := trace w @ [OutboxAppend item True]\<rparr>)
      else (Inl (OSError ''cannot write outbox''),
            w\<lparr>trace := trace w @ [OutboxAppend item False]\<rparr>))"

text \<open>\<^verbatim>\<open>[json.loads(l) for l in lines]\<close>: the first line that does not parse raises.\<close>

fun loads_all :: "env \<Rightarrow> string list \<Rightarrow> error + json list" where
  "loads_all E [] = Inr []"
| "loads_all E (l # ls) =
     (case loads E l of
        None \<Rightarrow> Inl (JSONDecodeError l)
      | Some v \<Rightarrow> (case loads_all E ls of Inl e \<Rightarrow> Inl e | Inr vs \<Rightarrow> Inr (v # vs)))"

text \<open>
  \<^verbatim>\<open>
  def drain(max_items=1000):
      if not OBX.exists(): return []
      lines = OBX.read_text().splitlines()
      OBX.unlink(missing_ok=True)
      items = [json.loads(l) for l in lines]
      return items[:max_items]
  \<close>
  The file is taken to be readable whenever it exists.
\<close>

definition drain :: "env \<Rightarrow> nat \<Rightarrow> world \<Rightarrow> (error + json list) \<times> world" where
  "drain E max_items w =
     (case outbox_file w of
        None \<Rightarrow> (Inr [], w)
      | Some text \<Rightarrow>
          (let lines = splitlines text;
               w' = w\<lparr>outbox_file := None\<rparr>
           in case loads_all E lines of
                Inl e \<Rightarrow> (Inl e, w')
              | Inr items \<Rightarrow> (Inr (take max_items items), w')))"

section \<open>Handler registry (jobs.py)\<close>

text \<open>
  \<^verbatim>\<open>Job\<close> is a dataclass: its constructor stores what it is given, whatever the
  declared field types (\<^verbatim>\<open>id: str\<close>, \<^verbatim>\<open>op: str\<close>,
  \<^verbatim>\<open>payload: Dict[str, Any]\<close>, \<^verbatim>\<open>lease_until: Optional[str]\<close>). The fields are
  prefixed with \<open>job_\<close>, since \<open>id\<close> is the identity function of HOL.
\<close>

record job =
  job_id :: json
  job_op :: json
  job_payload :: json
  job_lease_until :: json








section \<open>Scheduler (scheduler.py)\<close>





text \<open>
  \<^verbatim>\<open>
  async def flush_outbox(self):
      for item in outbox.drain():
          try:
              await self.api.report(item["job_id"], item["action"], item["payload"])
          except Exception:
              outbox.append(item)  # put back and bail
              break
  \<close>
  \<open>report_item\<close> is the body of the \<^verbatim>\<open>try\<close>: the three subscripts are evaluated
  before the call, and what they raise is caught like a failed report.
\<close>

definition report_item :: "json \<Rightarrow> world \<Rightarrow> (error + json) \<times> world" where
  "report_item item w =
     (case subscript item ''job_id'' of
        Inl e \<Rightarrow> (Inl e, w)
      | Inr jid \<Rightarrow>
     (case subscript item ''action'' of
        Inl e \<Rightarrow> (Inl e, w)
      | Inr action \<Rightarrow>
     (case subscript item ''payload'' of
        Inl e \<Rightarrow> (Inl e, w)
      | Inr payload \<Rightarrow> report jid action payload w)))"

fun flush_items :: "env \<Rightarrow> json list \<Rightarrow> world \<Rightarrow> (error + unit) \<times> world" where
  "flush_items E [] w = (Inr (), w)"
| "flush_items E (item # rest) w =
     (case report_item item w of
        (Inr ack, w') \<Rightarrow> flush_items E rest w'
      | (Inl e, w') \<Rightarrow> outbox_append E item w')"

definition flush_outbox :: "env \<Rightarrow> world \<Rightarrow> (error + unit) \<times> world" where
  "flush_outbox E w =
     (case drain E 1000 w of
        (Inl e, w') \<Rightarrow> (Inl e, w')
      | (Inr items, w') \<Rightarrow> flush_items E items w')"

section \<open>Identity (identity.py)\<close>

text \<open>
  \<open>identity_file\<close> is the text of \<^verbatim>\<open>.state/identity.json\<close> (\<open>None\<close>: no such file),
  \<open>uuid_calls\<close> counts the calls of \<^verbatim>\<open>uuid.uuid4()\<close> made so far.
\<close>

record id_world =
  identity_file :: "string option"
  uuid_calls :: nat

text \<open>
  \<^verbatim>\<open>
  def _machine_fingerprint():
      host = socket.gethostname()
      sys = platform.platform()
      return hashlib.sha256(f"{host}|{sys}".encode()).hexdigest()
  \<close>
\<close>

definition machine_fingerprint :: "env \<Rightarrow> string" where
  "machine_fingerprint E = sha256_hex E (gethostname E @ ''|'' @ platform E)"

text \<open>
  \<^verbatim>\<open>
  def load_identity():
      IDENTITY_PATH.parent.mkdir(parents=True, exist_ok=True)
      if IDENTITY_PATH.exists():
          return json.loads(IDENTITY_PATH.read_text())
      ident = {
          "bot_key": _machine_fingerprint(),
          "instance_id": str(uuid.uuid4()),
          "hostname": socket.gethostname(),
          "os": platform.platform(),
      }
      IDENTITY_PATH.write_text(json.dumps(ident, indent=2))
      return ident
  \<close>
\<close>

definition load_identity :: "env \<Rightarrow> id_world \<Rightarrow> (error + json) \<times> id_world" where
  "load_identity E s =
     (case identity_file s of
        Some text \<Rightarrow>
          (case loads E text of
             None \<Rightarrow> (Inl (JSONDecodeError text), s)
           | Some ident \<Rightarrow> (Inr ident, s))
      | None \<Rightarrow>
          (let ident = JObj [(''bot_key'', JStr (machine_fingerprint E)),
                             (''instance_id'', JStr (uuid4 E (uuid_calls s))),
                             (''hostname'', JStr (gethostname E)),
                             (''os'', JStr (platform E))]
           in (Inr ident,
               s\<lparr>identity_file := Some (dumps_indent E ident),
                 uuid_calls := uuid_calls s + 1\<rparr>)))"

text \<open>
  \<^verbatim>\<open>
  def rotate_instance_id():
      ident = load_identity()
      ident["instance_id"] = str(uuid.uuid4())
      IDENTITY_PATH.write_text(json.dumps(ident, indent=2))
      return ident
  \<close>
  The right-hand side of the assignment is evaluated first, so the call of
  \<^verbatim>\<open>uuid4\<close> is made even when the assignment then raises.
\<close>

definition rotate_instance_id :: "env \<Rightarrow> id_world \<Rightarrow> (error + json) \<times> id_world" where
  "rotate_instance_id E s =
     (case load_identity E s of
        (Inl e, s') \<Rightarrow> (Inl e, s')
      | (Inr ident, s') \<Rightarrow>
          (let fresh = JStr (uuid4 E (uuid_calls s'));
               s'' = s'\<lparr>uuid_calls := uuid_calls s' + 1\<rparr>
           in case setitem ident ''instance_id'' fresh of
                Inl e \<Rightarrow> (Inl e, s'')
              | Inr ident' \<Rightarrow>
                  (Inr ident', s''\<lparr>identity_file := Some (dumps_indent E ident')\<rparr>)))"

section \<open>The permits of the scheduler (scheduler.py, machine.py)\<close>

text \<open>
  The fan-out of \<^verbatim>\<open>tick\<close>, the guard of \<^verbatim>\<open>_run_guarded\<close> and the heartbeat
  loop run as separate asyncio tasks and meet at the semaphore:
  \<^verbatim>\<open>
  # Scheduler.__init__
  self.sem = asyncio.Semaphore(max_conc)

  # Scheduler.tick
  jobs = await self.api.claim(self.bot_id, self.ops, settings.claim_batch_size)
  if not jobs:
      await asyncio.sleep(0.4)
      return
  tasks = []
  for raw in jobs:
      await self.sem.acquire()
      tasks.append(asyncio.create_task(self._run_guarded(raw)))
  await asyncio.gather(*tasks)

  # Scheduler._run_guarded
  try:
      await self._process_one(raw)
  finally:
      self.sem.release()

  # Bot._heartbeat_loop
  if "assignment" in resp:
      self.assignment = resp["assignment"]
      if self.scheduler:
          self.scheduler.ops = self.assignment["operations"]
          self.scheduler.sem = asyncio.Semaphore(self.assignment["max_concurrency"])
  \<close>
  Semaphores are objects, and \<^verbatim>\<open>self.sem\<close> is a reference that the heartbeat
  re-binds, so the model keeps a store: \<open>semaphores\<close> holds the free permits of every
  semaphore created so far and \<open>self_sem\<close> is the index of the one \<^verbatim>\<open>self.sem\<close>
  refers to. \<open>max_concurrency\<close> is the value of the assignment in force. \<open>running\<close>
  has one entry per task that was spawned and has not finished: the
  \<open>max_concurrency\<close> that was in force when its permit was acquired. \<open>at\<close> is where
  the tick stands: before its claim, in the loop with so many jobs still to start, suspended
  inside \<^verbatim>\<open>acquire()\<close> of one semaphore (with so many jobs left after the one it is
  starting), or in \<^verbatim>\<open>gather\<close>.
\<close>

datatype tick_pc = Claiming | FanOut nat | Acquiring nat nat | Joining

record sched =
  semaphores :: "nat list"
  self_sem :: nat
  max_concurrency :: nat
  at :: tick_pc
  running :: "nat list"

definition scheduler_init :: "nat \<Rightarrow> sched" where
  "scheduler_init max_conc =
     \<lparr>semaphores = [max_conc], self_sem = 0, max_concurrency = max_conc,
      at = Claiming, running = []\<rparr>"

text \<open>
  What one task does between two of its suspension points is one action: the claim
  returns a batch of \<open>n\<close> jobs; the loop calls \<^verbatim>\<open>self.sem.acquire()\<close>; a suspended
  \<^verbatim>\<open>acquire()\<close> resumes; the \<open>i\<close>-th running task finishes and its guard releases;
  the heartbeat installs a new assignment; \<^verbatim>\<open>gather\<close> returns.
\<close>

datatype action = Claimed nat | Acquire | Resume | Finish nat | NewAssignment nat | Joined

text \<open>
  A permit of semaphore \<open>s\<close> is taken and the task is spawned, with \<open>n\<close> jobs left.
\<close>

definition spawn :: "nat \<Rightarrow> nat \<Rightarrow> sched \<Rightarrow> sched" where
  "spawn s n c =
     c\<lparr>semaphores := (semaphores c)[s := semaphores c ! s - 1],
       running := running c @ [max_concurrency c],
       at := (if n = 0 then Joining else FanOut n)\<rparr>"

text \<open>
  \<open>step\<close> is \<open>None\<close> when the action is not enabled. \<^verbatim>\<open>acquire()\<close> takes a permit
  at once when one is free and suspends on that very semaphore otherwise;
  \<^verbatim>\<open>release()\<close> adds a permit to the semaphore \<^verbatim>\<open>self.sem\<close> refers to when the
  task finishes (an \<^verbatim>\<open>asyncio.Semaphore\<close> has no upper bound).
\<close>

fun step :: "sched \<Rightarrow> action \<Rightarrow> sched option" where
  "step c (Claimed n) =
     (if at c = Claiming then Some (if n = 0 then c else c\<lparr>at := FanOut n\<rparr>) else None)"
| "step c Acquire =
     (case at c of
        FanOut k \<Rightarrow>
          (if k = 0 \<or> length (semaphores c) \<le> self_sem c then None
           else if 0 < semaphores c ! self_sem c then Some (spawn (self_sem c) (k - 1) c)
           else Some (c\<lparr>at := Acquiring (self_sem c) (k - 1)\<rparr>))
      | _ \<Rightarrow> None)"
| "step c Resume =
     (case at c of
        Acquiring s n \<Rightarrow>
          (if s < length (semaphores c) \<and> 0 < semaphores c ! s then Some (spawn s n c)
           else None)
      | _ \<Rightarrow> None)"
| "step c (Finish i) =
     (if i < length (running c) \<and> self_sem c < length (semaphores c)
      then Some (c\<lparr>running := take i (running c) @ drop (Suc i) (running c),
                   semaphores := (semaphores c)[self_sem c := semaphores c ! self_sem c + 1]\<rparr>)
      else None)"
| "step c (NewAssignment m) =
     Some (c\<lparr>semaphores := semaphores c @ [m],
             self_sem := length (semaphores c),
             max_concurrency := m\<rparr>)"
| "step c Joined =
     (if at c = Joining \<and> running c = [] then Some (c\<lparr>at := Claiming\<rparr>) else None)"

fun run :: "sched \<Rightarrow> action list \<Rightarrow> sched option" where
  "run c [] = Some c"
| "run c (a # as) = (case step c a of None \<Rightarrow> None | Some c' \<Rightarrow> run c' as)"

section \<open>Observations and sample data\<close>

text \<open>
  What the next request will meet, and whether \<open>report\<close> returns on it.
\<close>

definition next_response :: "world \<Rightarrow> http_result" where
  "next_response w =
     (case net w of [] \<Rightarrow> ConnectionFailed ''cannot connect'' | r # rs \<Rightarrow> r)"

definition delivered :: "http_result \<Rightarrow> bool" where
  "delivered r = (case r of Response status (Inr data) \<Rightarrow> True | _ \<Rightarrow> False)"

text \<open>
  The data of the repository's tests, to run the model on: the three pending entries of
  \<^verbatim>\<open>test_flush_outbox_partial_failure\<close>, the job and the buffered report of
  \<^verbatim>\<open>test_report_failure_to_outbox\<close>, and the identity of
  \<^verbatim>\<open>test_rotate_instance_id\<close>, each with the text \<^verbatim>\<open>json.dumps\<close> gives it.
\<close>

definition pending_1 :: json where
  "pending_1 = JObj [(''job_id'', JStr ''job_1''), (''action'', JStr ''complete''),
                     (''payload'', JObj [(''result'', JInt 1)])]"

definition pending_2 :: json where
  "pending_2 = JObj [(''job_id'', JStr ''job_2''), (''action'', JStr ''fail''),
                     (''payload'', JObj [(''error'', JStr ''test'')])]"

definition pending_3 :: json where
  "pending_3 = JObj [(''job_id'', JStr ''job_3''), (''action'', JStr ''complete''),
                     (''payload'', JObj [(''result'', JInt 3)])]"

definition pending_1_text :: string where
  \<open>pending_1_text = ''{"job_id": "job_1", "action": "complete", "payload": {"result": 1}}''\<close>

definition pending_2_text :: string where
  \<open>pending_2_text = ''{"job_id": "job_2", "action": "fail", "payload": {"error": "test"}}''\<close>

definition pending_3_text :: string where
  \<open>pending_3_text = ''{"job_id": "job_3", "action": "complete", "payload": {"result": 3}}''\<close>


definition buffered_1 :: json where
  "buffered_1 = JObj [(''job_id'', JStr ''job_1''), (''action'', JStr ''complete''),
                      (''payload'', JObj [(''instance_id'', JStr ''inst_test''),
                                          (''result'', JObj [(''result'', JInt 3)])])]"

definition buffered_1_text :: string where
  \<open>buffered_1_text = ''{"job_id": "job_1", "action": "complete", "payload": {"instance_id": "inst_test", "result": {"result": 3}}}''\<close>


definition original_identity :: json where
  "original_identity = JObj [(''bot_key'', JStr ''keep-this-key''),
                             (''instance_id'', JStr ''old-instance''),
                             (''hostname'', JStr ''host''), (''os'', JStr ''os'')]"

definition original_identity_text :: string where
  \<open>original_identity_text = ''{"bot_key": "keep-this-key", "instance_id": "old-instance", "hostname": "host", "os": "os"}''\<close>

definition rotated_identity :: json where
  "rotated_identity = JObj [(''bot_key'', JStr ''keep-this-key''),
                            (''instance_id'', JStr ''87654321-4321-8765-4321-876543218765''),
                            (''hostname'', JStr ''host''), (''os'', JStr ''os'')]"

definition rotated_identity_text :: string where
  \<open>rotated_identity_text =
     ''{'' @ [CHR 0x0A] @
     ''  "bot_key": "keep-this-key",'' @ [CHR 0x0A] @
     ''  "instance_id": "87654321-4321-8765-4321-876543218765",'' @ [CHR 0x0A] @
     ''  "hostname": "host",'' @ [CHR 0x0A] @
     ''  "os": "os"'' @ [CHR 0x0A] @
     ''}''\<close>

text \<open>
  An instance of the library parameters that knows these values and texts: every other
  text is not JSON for it, and every other value has the empty text.
\<close>

definition sample_env :: env where
  "sample_env =
     \<lparr>dumps = (\<lambda>v. if v = pending_1 then pending_1_text
                    else if v = pending_2 then pending_2_text
                    else if v = pending_3 then pending_3_text
                    else if v = buffered_1 then buffered_1_text
                    else if v = original_identity then original_identity_text
                    else []),
      dumps_indent = (\<lambda>v. if v = rotated_identity then rotated_identity_text else []),
      loads = (\<lambda>t. if t = pending_1_text then Some pending_1
                    else if t = pending_2_text then Some pending_2
                    else if t = pending_3_text then Some pending_3
                    else if t = buffered_1_text then Some buffered_1
                    else if t = original_identity_text then Some original_identity
                    else if t = rotated_identity_text then Some rotated_identity
                    else None),
      uuid4 = (\<lambda>n. ''87654321-4321-8765-4321-876543218765''),
      gethostname = ''test-host'',
      platform = ''test-platform'',
      sha256_hex = (\<lambda>t. replicate 64 (CHR ''0''))\<rparr>"

definition idle_world :: world where
  "idle_world =
     \<lparr>net = [], outbox_file = None, outbox_writable = True, sem_value = 2, trace = []\<rparr>"

definition accepted :: http_result where
  "accepted = Response 200 (Inr (JObj [(''status'', JStr ''accepted'')]))"

definition pending_file :: string where
  "pending_file =
     pending_1_text @ [CHR 0x0A] @ pending_2_text @ [CHR 0x0A] @ pending_3_text @ [CHR 0x0A]"

text \<open>A file whose second line is not JSON, as in \<^verbatim>\<open>test_drain_handles_corrupted_lines\<close>.\<close>

definition corrupt_file :: string where
  "corrupt_file =
     pending_1_text @ [CHR 0x0A] @ ''not json at all'' @ [CHR 0x0A] @ pending_3_text @ [CHR 0x0A]"


text \<open>
  Runs in which the heartbeat never installs an assignment, and what such runs keep true:
  there is one semaphore, and its free permits and the running tasks add up to
  \<open>max_concurrency\<close>.
\<close>

definition no_reassignment :: "action list \<Rightarrow> bool" where
  "no_reassignment as = (\<forall>a \<in> set as. case a of NewAssignment m \<Rightarrow> False | _ \<Rightarrow> True)"

definition one_semaphore :: "nat \<Rightarrow> sched \<Rightarrow> bool" where
  "one_semaphore m c \<longleftrightarrow>
     length (semaphores c) = 1 \<and> self_sem c = 0 \<and> max_concurrency c = m \<and>
     semaphores c ! 0 + length (running c) = m \<and>
     (\<forall>x \<in> set (running c). x = m) \<and>
     (case at c of Acquiring s n \<Rightarrow> s = 0 | _ \<Rightarrow> True)"

section \<open>Facts about the model\<close>

subsection \<open>Requests\<close>

lemma report_returns_iff:
  "(\<exists>ack. fst (report jid action payload w) = Inr ack) \<longleftrightarrow> delivered (next_response w)"
  by (auto simp: report_def session_post_def next_response_def delivered_def Let_def
      split: list.splits http_result.splits sum.splits)

text \<open>\<open>report\<close> hands back the decoded body under every status.\<close>

lemma report_ignores_status:
  "net w = Response status (Inr data) # rest \<Longrightarrow>
   fst (report jid action payload w) = Inr data"
  by (simp add: report_def session_post_def)

lemma session_post_outbox:
  "outbox_file (snd (session_post url body w)) = outbox_file w"
  by (simp add: session_post_def Let_def split: list.splits)

lemma report_outbox:
  "outbox_file (snd (report jid action payload w)) = outbox_file w"
proof -
  have "snd (report jid action payload w) =
        snd (session_post (JobsReport jid action) payload w)"
    by (simp add: report_def split: prod.splits http_result.splits)
  then show ?thesis by (simp add: session_post_outbox)
qed

lemma report_item_outbox:
  "outbox_file (snd (report_item item w)) = outbox_file w"
  by (simp add: report_item_def report_outbox split: sum.splits)

subsection \<open>Report, or else the outbox\<close>





subsection \<open>Draining\<close>

lemma loads_all_ok:
  "\<forall>l \<in> set ls. loads E l \<noteq> None \<Longrightarrow>
   loads_all E ls = Inr (map (\<lambda>l. the (loads E l)) ls)"
  by (induction ls) auto

lemma loads_all_bad:
  "l \<in> set ls \<Longrightarrow> loads E l = None \<Longrightarrow> \<exists>e. loads_all E ls = Inl e"
  by (induction ls) (auto split: option.splits sum.splits)

lemma drain_absent: "outbox_file w = None \<Longrightarrow> drain E max_items w = (Inr [], w)"
  by (simp add: drain_def)

lemma drain_removes:
  "outbox_file w = Some text \<Longrightarrow> snd (drain E max_items w) = w\<lparr>outbox_file := None\<rparr>"
  by (simp add: drain_def Let_def split: sum.splits)

lemma drain_parsed:
  "outbox_file w = Some text \<Longrightarrow> \<forall>l \<in> set (splitlines text). loads E l \<noteq> None \<Longrightarrow>
   fst (drain E max_items w) =
     Inr (take max_items (map (\<lambda>l. the (loads E l)) (splitlines text)))"
  by (simp add: drain_def Let_def loads_all_ok)

lemma drain_corrupt:
  assumes "outbox_file w = Some text" and "l \<in> set (splitlines text)" and "loads E l = None"
  shows "\<exists>e. fst (drain E max_items w) = Inl e"
proof -
  from loads_all_bad [OF assms(2,3)] obtain e where "loads_all E (splitlines text) = Inl e" ..
  with assms(1) show ?thesis by (simp add: drain_def Let_def)
qed

subsection \<open>Flushing\<close>

text \<open>
  The loop over the drained entries writes at most one line, the entry whose report
  failed; since \<open>drain\<close> has removed the file, at most that one entry is on disk after
  \<open>flush_outbox\<close>, however many entries were drained.
\<close>

lemma flush_items_appends_at_most_one:
  "outbox_file (snd (flush_items E items w)) = outbox_file w \<or>
   (\<exists>item. item \<in> set items \<and>
      outbox_file (snd (flush_items E items w)) =
        Some ((case outbox_file w of None \<Rightarrow> [] | Some text \<Rightarrow> text)
              @ dumps E item @ [CHR 0x0A]))"
proof (induction items arbitrary: w)
  case Nil
  show ?case by simp
next
  case (Cons item rest)
  obtain r w' where rw: "report_item item w = (r, w')" by (cases "report_item item w")
  then have same: "outbox_file w' = outbox_file w"
    using report_item_outbox [of item w] by simp
  show ?case
  proof (cases r)
    case (Inl e)
    with rw same show ?thesis by (auto simp: outbox_append_def)
  next
    case (Inr ack)
    with rw have "flush_items E (item # rest) w = flush_items E rest w'" by simp
    with Cons.IH [of w'] same show ?thesis by auto
  qed
qed

lemma flush_outbox_leaves_at_most_one:
  assumes "outbox_file w = Some text"
  shows "outbox_file (snd (flush_outbox E w)) = None \<or>
         (\<exists>item. outbox_file (snd (flush_outbox E w)) = Some (dumps E item @ [CHR 0x0A]))"
proof (cases "fst (drain E 1000 w)")
  case (Inl e)
  then show ?thesis using assms
    by (auto simp: flush_outbox_def drain_def Let_def split: sum.splits prod.splits)
next
  case (Inr items)
  with assms have d: "drain E 1000 w = (Inr items, w\<lparr>outbox_file := None\<rparr>)"
    by (auto simp: drain_def Let_def split: sum.splits)
  from flush_items_appends_at_most_one [of E items "w\<lparr>outbox_file := None\<rparr>"]
  show ?thesis by (auto simp: flush_outbox_def d)
qed

subsection \<open>The sample data\<close>

lemma pending_file_lines:
  "splitlines pending_file = [pending_1_text, pending_2_text, pending_3_text]"
  by (simp add: pending_file_def splitlines_def pending_1_text_def pending_2_text_def
      pending_3_text_def line_boundary_def)

lemma corrupt_file_lines:
  "splitlines corrupt_file = [pending_1_text, ''not json at all'', pending_3_text]"
  by (simp add: corrupt_file_def splitlines_def pending_1_text_def pending_3_text_def
      line_boundary_def)

lemma loads_sample:
  "loads sample_env pending_1_text = Some pending_1"
  "loads sample_env pending_2_text = Some pending_2"
  "loads sample_env pending_3_text = Some pending_3"
  "loads sample_env ''not json at all'' = None"
  "loads sample_env original_identity_text = Some original_identity"
  "loads sample_env rotated_identity_text = Some rotated_identity"
  by (simp_all add: sample_env_def pending_1_text_def pending_2_text_def pending_3_text_def
      buffered_1_text_def original_identity_text_def rotated_identity_text_def)

lemma dumps_sample:
  "dumps sample_env pending_2 = pending_2_text"
  "dumps sample_env buffered_1 = buffered_1_text"
  "dumps_indent sample_env rotated_identity = rotated_identity_text"
  by (simp_all add: sample_env_def pending_1_def pending_2_def pending_3_def buffered_1_def)



subsection \<open>One semaphore\<close>

lemma step_one_semaphore:
  assumes "one_semaphore m c" and "step c a = Some c'"
      and "case a of NewAssignment k \<Rightarrow> False | _ \<Rightarrow> True"
  shows "one_semaphore m c'"
proof (cases a)
  case (Claimed n)
  with assms show ?thesis by (auto simp: one_semaphore_def split: if_splits)
next
  case Acquire
  with assms show ?thesis
    by (auto simp: one_semaphore_def spawn_def split: tick_pc.splits if_splits)
next
  case Resume
  with assms show ?thesis
    by (auto simp: one_semaphore_def spawn_def split: tick_pc.splits if_splits)
next
  case (Finish i)
  with assms show ?thesis
    by (auto simp: one_semaphore_def split: if_splits dest!: in_set_takeD in_set_dropD)
next
  case (NewAssignment k)
  with assms show ?thesis by simp
next
  case Joined
  with assms show ?thesis by (auto simp: one_semaphore_def split: if_splits)
qed

lemma run_one_semaphore:
  "one_semaphore m c \<Longrightarrow> run c as = Some c' \<Longrightarrow> no_reassignment as \<Longrightarrow> one_semaphore m c'"
proof (induction as arbitrary: c)
  case Nil
  then show ?case by simp
next
  case (Cons a as)
  from Cons.prems(2) obtain d where d: "step c a = Some d" and r: "run d as = Some c'"
    by (auto split: option.splits)
  from Cons.prems(3) have a: "case a of NewAssignment k \<Rightarrow> False | _ \<Rightarrow> True"
    and as: "no_reassignment as"
    by (simp_all add: no_reassignment_def)
  from Cons.prems(1) d a have "one_semaphore m d" by (rule step_one_semaphore)
  from this r as show ?case by (rule Cons.IH)
qed

text \<open>
  As long as the heartbeat installs no assignment, the tasks in flight never outnumber
  \<open>max_concurrency\<close>, whatever the interleaving.
\<close>

lemma bounded_without_reassignment:
  assumes "run (scheduler_init m) as = Some c" and "no_reassignment as"
  shows "length (running c) \<le> m"
proof -
  have "one_semaphore m (scheduler_init m)"
    by (simp add: one_semaphore_def scheduler_init_def)
  from this assms have "one_semaphore m c" by (rule run_one_semaphore)
  then show ?thesis by (simp add: one_semaphore_def)
qed


section \<open>The claims\<close>

text \<open>
  \<^bold>\<open>C1\<close> asks that \<open>report\<close> raises whenever the server answers with a status outside
  2xx. The code returns \<^verbatim>\<open>await r.json()\<close> without looking at \<^verbatim>\<open>r.status\<close>
  (\<^verbatim>\<open>register\<close>, next to it, does look). On the answer of
  \<^verbatim>\<open>test_network_flap_recovery\<close>, status 503 with the JSON body
  \<^verbatim>\<open>{"error": "timeout"}\<close>, \<open>report\<close> returns that body, so the caller sees a
  delivered report and never reaches the outbox (\<open>report_ignores_status\<close>: so it
  is under every status).
\<close>

theorem report_returns_on_503:
  "fst (report (JStr ''job_1'') (JStr ''complete'')
          (JObj [(''instance_id'', JStr ''test-instance''),
                 (''result'', JObj [(''result'', JInt 3)])])
          (idle_world\<lparr>net := [Response 503 (Inr (JObj [(''error'', JStr ''timeout'')]))]\<rparr>))
   = Inr (JObj [(''error'', JStr ''timeout'')])"
  by (simp add: report_def session_post_def idle_world_def)

text \<open>
  \<^bold>\<open>C2\<close> asks that, when the report of the \<open>i\<close>-th drained entry is the first to
  fail, the outbox file afterwards holds that entry and all later ones. \<open>drain\<close> has
  removed the file and handed every entry to the loop, and the loop puts back only the
  entry that failed before it breaks. With three entries on disk, the first report accepted
  and the second failing, the third report is not attempted and the file holds the second
  entry alone: the third entry is nowhere (\<open>flush_outbox_leaves_at_most_one\<close>: so
  it is for every file and every failure).
\<close>

theorem flush_outbox_loses_unattempted:
  "flush_outbox sample_env
     (idle_world\<lparr>outbox_file := Some pending_file,
                 net := [accepted, ConnectionFailed ''Network error'']\<rparr>)
   = (Inr (),
      idle_world\<lparr>outbox_file := Some (pending_2_text @ [CHR 0x0A]),
                 net := [],
                 trace :=
                   [HttpPost (JobsReport (JStr ''job_1'') (JStr ''complete''))
                      (JObj [(''result'', JInt 1)]) accepted,
                    HttpPost (JobsReport (JStr ''job_2'') (JStr ''fail''))
                      (JObj [(''error'', JStr ''test'')]) (ConnectionFailed ''Network error''),
                    OutboxAppend pending_2 True]\<rparr>)"
proof -
  have parsed: "loads_all sample_env [pending_1_text, pending_2_text, pending_3_text]
      = Inr [pending_1, pending_2, pending_3]"
    by (simp add: loads_sample)
  have drained:
    "drain sample_env 1000
       (idle_world\<lparr>outbox_file := Some pending_file,
                   net := [accepted, ConnectionFailed ''Network error'']\<rparr>)
     = (Inr [pending_1, pending_2, pending_3],
        idle_world\<lparr>outbox_file := None,
                   net := [accepted, ConnectionFailed ''Network error'']\<rparr>)"
    by (simp add: drain_def pending_file_lines parsed idle_world_def del: loads_all.simps)
  have first:
    "report_item pending_1
       (idle_world\<lparr>outbox_file := None,
                   net := [accepted, ConnectionFailed ''Network error'']\<rparr>)
     = (Inr (JObj [(''status'', JStr ''accepted'')]),
        idle_world\<lparr>outbox_file := None, net := [ConnectionFailed ''Network error''],
          trace := [HttpPost (JobsReport (JStr ''job_1'') (JStr ''complete''))
                      (JObj [(''result'', JInt 1)]) accepted]\<rparr>)"
    by (simp add: report_item_def report_def session_post_def pending_1_def accepted_def
        idle_world_def)
  have second:
    "report_item pending_2
       (idle_world\<lparr>outbox_file := None, net := [ConnectionFailed ''Network error''],
          trace := [HttpPost (JobsReport (JStr ''job_1'') (JStr ''complete''))
                      (JObj [(''result'', JInt 1)]) accepted]\<rparr>)
     = (Inl (ClientError ''Network error''),
        idle_world\<lparr>outbox_file := None, net := [],
          trace := [HttpPost (JobsReport (JStr ''job_1'') (JStr ''complete''))
                      (JObj [(''result'', JInt 1)]) accepted,
                    HttpPost (JobsReport (JStr ''job_2'') (JStr ''fail''))
                      (JObj [(''error'', JStr ''test'')])
                      (ConnectionFailed ''Network error'')]\<rparr>)"
    by (simp add: report_item_def report_def session_post_def pending_2_def idle_world_def)
  show ?thesis
    unfolding flush_outbox_def drained
    by (simp add: first second) (simp add: outbox_append_def dumps_sample idle_world_def)
qed






text \<open>
  \<^bold>\<open>C5.\<close> When the outbox file is absent \<open>drain\<close> returns the empty list and
  changes nothing. Otherwise the file is gone afterwards, whatever else happens; when every
  line parses, \<open>drain\<close> returns the parsed lines in file order, cut to \<open>max_items\<close>;
  when some line does not parse, \<open>drain\<close> raises.
\<close>

theorem drain_behaviour:
  "(outbox_file w = None \<longrightarrow> drain E max_items w = (Inr [], w)) \<and>
   (\<forall>text. outbox_file w = Some text \<longrightarrow>
      snd (drain E max_items w) = w\<lparr>outbox_file := None\<rparr> \<and>
      ((\<forall>l \<in> set (splitlines text). loads E l \<noteq> None) \<longrightarrow>
         fst (drain E max_items w) =
           Inr (take max_items (map (\<lambda>l. the (loads E l)) (splitlines text)))) \<and>
      ((\<exists>l \<in> set (splitlines text). loads E l = None) \<longrightarrow>
         (\<exists>e. fst (drain E max_items w) = Inl e)))"
  using drain_absent drain_removes drain_parsed drain_corrupt by blast

text \<open>No file, a file of three entries, and a file with a line that is not JSON.\<close>

theorem drain_behaviour_witness:
  "drain sample_env 1000 idle_world = (Inr [], idle_world) \<and>
   drain sample_env 1000 (idle_world\<lparr>outbox_file := Some pending_file\<rparr>)
     = (Inr [pending_1, pending_2, pending_3], idle_world) \<and>
   drain sample_env 1000 (idle_world\<lparr>outbox_file := Some corrupt_file\<rparr>)
     = (Inl (JSONDecodeError ''not json at all''), idle_world)"
proof -
  note t1 = drain_behaviour [of idle_world sample_env 1000]
  note t2 = drain_behaviour [of "idle_world\<lparr>outbox_file := Some pending_file\<rparr>" sample_env 1000]
  note t3 = drain_behaviour [of "idle_world\<lparr>outbox_file := Some corrupt_file\<rparr>" sample_env 1000]
  have a: "drain sample_env 1000 idle_world = (Inr [], idle_world)"
    using t1 by (simp add: idle_world_def)
  have ok: "\<forall>l \<in> set (splitlines pending_file). loads sample_env l \<noteq> None"
    by (simp add: pending_file_lines loads_sample)
  have b: "drain sample_env 1000 (idle_world\<lparr>outbox_file := Some pending_file\<rparr>)
     = (Inr [pending_1, pending_2, pending_3], idle_world)"
    using t2 ok
    by (simp add: prod_eq_iff pending_file_lines loads_sample) (simp add: idle_world_def)
  have c: "drain sample_env 1000 (idle_world\<lparr>outbox_file := Some corrupt_file\<rparr>)
     = (Inl (JSONDecodeError ''not json at all''), idle_world)"
    using t3
    by (simp add: drain_def corrupt_file_lines loads_sample idle_world_def)
  from a b c show ?thesis by simp
qed

text \<open>
  \<^bold>\<open>C6\<close> asks that the tasks in flight never outnumber the \<open>max_concurrency\<close> in
  force when each of them acquired its permit. The guard releases into whatever
  \<^verbatim>\<open>self.sem\<close> refers to when the task finishes, and the heartbeat re-binds
  \<^verbatim>\<open>self.sem\<close> to a fresh semaphore whenever a response carries an assignment. Start
  with \<open>max_concurrency = 2\<close>: a tick starts two jobs; while it waits in
  \<^verbatim>\<open>gather\<close> and the tasks wait for their reports, a heartbeat installs an assignment
  with the same \<open>max_concurrency = 2\<close>; the two tasks finish and release into the fresh
  semaphore, which then has four permits; the next tick claims three jobs and starts all
  three without waiting. Three tasks are in flight, each started under
  \<open>max_concurrency = 2\<close>. (\<open>bounded_without_reassignment\<close> above: with no
  assignment from the heartbeat the bound holds.)
\<close>

theorem permits_exceed_max_concurrency:
  "run (scheduler_init 2)
     [Claimed 2, Acquire, Acquire, NewAssignment 2, Finish 0, Finish 0, Joined,
      Claimed 3, Acquire, Acquire, Acquire]
   = Some \<lparr>semaphores = [0, 1], self_sem = 1, max_concurrency = 2, at = Joining,
           running = [2, 2, 2]\<rparr>"
  by (simp add: scheduler_init_def spawn_def)



text \<open>
  \<^bold>\<open>C8.\<close> When the identity file exists and holds a JSON object, \<open>rotate_instance_id\<close>
  returns that object with \<^verbatim>\<open>instance_id\<close> set to the value \<^verbatim>\<open>uuid4\<close> gives and
  every other key as it was (so \<^verbatim>\<open>bot_key\<close>, \<^verbatim>\<open>hostname\<close> and \<^verbatim>\<open>os\<close> are
  unchanged), and writes exactly this object to the file: loading the file again gives
  it back, provided \<^verbatim>\<open>json.loads\<close> reads back what \<^verbatim>\<open>json.dumps\<close> wrote.
\<close>

theorem rotate_replaces_only_instance_id:
  assumes "identity_file s = Some text"
      and "loads E text = Some (JObj kvs)"
  shows "let fresh = JStr (uuid4 E (uuid_calls s));
             rotated = AList.update ''instance_id'' fresh kvs;
             res = rotate_instance_id E s
         in fst res = Inr (JObj rotated) \<and>
            identity_file (snd res) = Some (dumps_indent E (JObj rotated)) \<and>
            map_of rotated ''instance_id'' = Some fresh \<and>
            (\<forall>k. k \<noteq> ''instance_id'' \<longrightarrow> map_of rotated k = map_of kvs k) \<and>
            (loads E (dumps_indent E (JObj rotated)) = Some (JObj rotated) \<longrightarrow>
               fst (load_identity E (snd res)) = Inr (JObj rotated))"
  using assms
  by (simp add: Let_def rotate_instance_id_def load_identity_def update_conv')

text \<open>The identity and the UUID of \<^verbatim>\<open>test_rotate_instance_id\<close>.\<close>

theorem rotate_replaces_only_instance_id_witness:
  "loads sample_env original_identity_text = Some original_identity \<and>
   rotate_instance_id sample_env \<lparr>identity_file = Some original_identity_text, uuid_calls = 0\<rparr>
     = (Inr rotated_identity,
        \<lparr>identity_file = Some rotated_identity_text, uuid_calls = 1\<rparr>) \<and>
   subscript rotated_identity ''bot_key'' = Inr (JStr ''keep-this-key'') \<and>
   subscript rotated_identity ''hostname'' = Inr (JStr ''host'') \<and>
   subscript rotated_identity ''os'' = Inr (JStr ''os'') \<and>
   load_identity sample_env \<lparr>identity_file = Some rotated_identity_text, uuid_calls = 1\<rparr>
     = (Inr rotated_identity,
        \<lparr>identity_file = Some rotated_identity_text, uuid_calls = 1\<rparr>)"
proof -
  have h1: "identity_file \<lparr>identity_file = Some original_identity_text, uuid_calls = 0\<rparr>
      = Some original_identity_text"
    by simp
  have h2: "loads sample_env original_identity_text
      = Some (JObj [(''bot_key'', JStr ''keep-this-key''),
                    (''instance_id'', JStr ''old-instance''),
                    (''hostname'', JStr ''host''), (''os'', JStr ''os'')])"
    by (simp add: loads_sample original_identity_def)
  note t = rotate_replaces_only_instance_id [where E = sample_env, OF h1 h2]
  have u: "uuid4 sample_env 0 = ''87654321-4321-8765-4321-876543218765''"
    by (simp add: sample_env_def)
  have r: "JObj (AList.update ''instance_id'' (JStr ''87654321-4321-8765-4321-876543218765'')
             [(''bot_key'', JStr ''keep-this-key''), (''instance_id'', JStr ''old-instance''),
              (''hostname'', JStr ''host''), (''os'', JStr ''os'')]) = rotated_identity"
    by (simp add: rotated_identity_def)
  have e: "rotate_instance_id sample_env
             \<lparr>identity_file = Some original_identity_text, uuid_calls = 0\<rparr>
     = (Inr rotated_identity,
        \<lparr>identity_file = Some rotated_identity_text, uuid_calls = 1\<rparr>)"
    by (simp add: rotate_instance_id_def load_identity_def h2 u r dumps_sample
        del: AList.update.simps)
  have f: "subscript rotated_identity ''bot_key'' = Inr (JStr ''keep-this-key'')"
    "subscript rotated_identity ''hostname'' = Inr (JStr ''host'')"
    "subscript rotated_identity ''os'' = Inr (JStr ''os'')"
    by (simp_all add: rotated_identity_def)
  have l: "load_identity sample_env
             \<lparr>identity_file = Some rotated_identity_text, uuid_calls = 1\<rparr>
     = (Inr rotated_identity,
        \<lparr>identity_file = Some rotated_identity_text, uuid_calls = 1\<rparr>)"
    by (simp add: load_identity_def loads_sample)
  from e f l have "?thesis" by (simp add: loads_sample)
  with t show ?thesis by - assumption
qed



text \<open>
  \<^bold>\<open>C10.\<close> When the outbox file has more than \<open>max_items\<close> lines, all of them JSON,
  \<open>drain\<close> returns the first \<open>max_items\<close> entries and removes the whole file: the
  entries after them are not returned, and a further \<open>drain\<close> finds nothing.
\<close>

theorem drain_discards_beyond_max_items:
  assumes "outbox_file w = Some text"
      and "\<forall>l \<in> set (splitlines text). loads E l \<noteq> None"
      and "max_items < length (splitlines text)"
  shows "let entries = map (\<lambda>l. the (loads E l)) (splitlines text);
             res = drain E max_items w
         in fst res = Inr (take max_items entries) \<and>
            length (take max_items entries) = max_items \<and>
            drop max_items entries \<noteq> [] \<and>
            outbox_file (snd res) = None \<and>
            fst (drain E n (snd res)) = Inr []"
  using assms
  by (simp add: Let_def drain_parsed drain_removes drain_absent)

text \<open>Three entries on disk and \<open>max_items = 2\<close>: the third entry is lost.\<close>

theorem drain_discards_beyond_max_items_witness:
  "(2::nat) < length (splitlines pending_file) \<and>
   drain sample_env 2 (idle_world\<lparr>outbox_file := Some pending_file\<rparr>)
     = (Inr [pending_1, pending_2], idle_world) \<and>
   drain sample_env 2 idle_world = (Inr [], idle_world)"
proof -
  have h1: "outbox_file (idle_world\<lparr>outbox_file := Some pending_file\<rparr>) = Some pending_file"
    by simp
  have h2: "\<forall>l \<in> set (splitlines pending_file). loads sample_env l \<noteq> None"
    by (simp add: pending_file_lines loads_sample)
  have h3: "(2::nat) < length (splitlines pending_file)"
    by (simp add: pending_file_lines)
  note t = drain_discards_beyond_max_items [where n = 2, OF h1 h2 h3]
  have parsed: "loads_all sample_env [pending_1_text, pending_2_text, pending_3_text]
      = Inr [pending_1, pending_2, pending_3]"
    by (simp add: loads_sample)
  have e: "drain sample_env 2 (idle_world\<lparr>outbox_file := Some pending_file\<rparr>)
     = (Inr [pending_1, pending_2], idle_world)"
    by (simp add: drain_def pending_file_lines parsed idle_world_def del: loads_all.simps)
  have a: "drain sample_env 2 idle_world = (Inr [], idle_world)"
    by (simp add: drain_def idle_world_def)
  from h3 e a have "?thesis" by simp
  with t show ?thesis by - assumption
qed

end
